theory Spec2Isabelle
  imports Complex_Main "HOL-Library.AList"
begin

section \<open>Python values, exceptions and the outside world\<close>

text \<open>
  The program is \<^verbatim>\<open>src/http_server.py\<close>: a Flask application that wraps one
  stdio MCP subprocess. The libraries it calls (the MCP client, the exit stack, YAML and
  JSON parsing, Flask's request object) are not part of the program; what they return or
  raise at each call is a field of the record \<open>world\<close> below, one world per
  operation. Mutation of the global client object is explicit state passing, and every
  operation also returns the list of interactions it had with the subprocess.

  Values that cross the HTTP and configuration boundaries are JSON-like Python values.
  A dictionary is an association list with string keys (its items in insertion order);
  floats are the finite ones.
\<close>

datatype pyval =
    PNone
  | PBool bool
  | PInt int
  | PFloat real
  | PStr string
  | PList "pyval list"
  | PDict "(string \<times> pyval) list"

text \<open>Python's truth test, as \<^verbatim>\<open>if x:\<close> and \<^verbatim>\<open>not x\<close> apply it.\<close>

fun truthy :: "pyval \<Rightarrow> bool" where
  "truthy PNone = False"
| "truthy (PBool b) = b"
| "truthy (PInt i) = (i \<noteq> 0)"
| "truthy (PFloat r) = (r \<noteq> 0)"
| "truthy (PStr s) = (s \<noteq> [])"
| "truthy (PList xs) = (xs \<noteq> [])"
| "truthy (PDict kvs) = (kvs \<noteq> [])"

fun type_name :: "pyval \<Rightarrow> string" where
  "type_name PNone = ''NoneType''"
| "type_name (PBool b) = ''bool''"
| "type_name (PInt i) = ''int''"
| "type_name (PFloat r) = ''float''"
| "type_name (PStr s) = ''str''"
| "type_name (PList xs) = ''list''"
| "type_name (PDict kvs) = ''dict''"

text \<open>
  An exception is an instance of Python's \<^verbatim>\<open>Exception\<close>: its class name and
  the text \<^verbatim>\<open>str(e)\<close>. Every handler of the program is
  \<^verbatim>\<open>except Exception\<close>, so these are the failures it can catch; the signals
  outside that class (interpreter exit, keyboard interrupt, task cancellation) are not
  modelled.
\<close>

datatype exn = Exc (exc_class: string) (exc_str: string)

definition quoted :: "string \<Rightarrow> string" where
  "quoted s = CHR 0x27 # s @ [CHR 0x27]"

text \<open>The error of reading attribute \<open>a\<close> of a value that has none of that name.\<close>

definition attribute_error :: "pyval \<Rightarrow> string \<Rightarrow> exn" where
  "attribute_error v a =
     Exc ''AttributeError'' (quoted (type_name v) @ '' object has no attribute '' @ quoted a)"

text \<open>\<^verbatim>\<open>StdioServerParameters(command=..., args=..., env=...)\<close>.\<close>

record stdio_params =
  sp_command :: string
  sp_args :: "string list"
  sp_env :: "string \<Rightarrow> string option"

text \<open>The two context managers the exit stack can hold, and the session object.\<close>

datatype resource = StdioTransport | ProtocolSession

datatype session_handle = ClientSession

text \<open>
  What the subprocess side observes: \<open>Launch\<close> is the call that enters
  \<^verbatim>\<open>stdio_client(server_params)\<close> (the subprocess spawn), \<open>Acquired\<close> a
  context manager entered with success and pushed on the exit stack, \<open>Released\<close> its
  exit, and the three protocol requests.
\<close>

datatype event =
    Launch stdio_params
  | Acquired resource
  | Released resource
  | Initialize
  | ListTools
  | CallTool pyval pyval

record tool =
  t_name :: string
  t_description :: "string option"
  t_inputSchema :: pyval

text \<open>
  An item of \<^verbatim>\<open>result.content\<close>: its \<^verbatim>\<open>type\<close>, its
  \<^verbatim>\<open>text\<close> attribute when it has one, and \<^verbatim>\<open>str(content)\<close>.
\<close>

record content =
  c_type :: string
  c_text :: "string option"
  c_str :: string

datatype wait_outcome = Completed | TimedOut

text \<open>
  The outcomes of the library calls during one operation; \<open>None\<close> and \<open>Inr\<close>
  are normal returns, \<open>Some e\<close> and \<open>Inl e\<close> raise \<open>e\<close>.
\<close>

record world =
  os_environ :: "string \<Rightarrow> string option"
  stdio_enter :: "exn option"
  session_enter :: "exn option"
  initialize_res :: "exn option"
  aclose_res :: "exn option"
  list_tools_res :: "exn + tool list"
  call_tool_res :: "pyval \<Rightarrow> pyval \<Rightarrow> exn + content list"
  wait_res :: wait_outcome
  request_json :: "exn + pyval"

section \<open>The session manager: class MCPClient\<close>

text \<open>
  \<open>exit_stack\<close> is \<open>None\<close> or the \<^verbatim>\<open>AsyncExitStack\<close> object, given by
  the context managers it holds, the one entered last first. Such an object is always
  true in a truth test, so \<^verbatim>\<open>if self.exit_stack:\<close> asks whether the field is
  not \<open>None\<close>.
\<close>

record client =
  command :: string
  args :: "string list"
  env :: "string \<Rightarrow> string option"
  session :: "session_handle option"
  exit_stack :: "resource list option"

text \<open>\<^verbatim>\<open>__init__\<close>; \<^verbatim>\<open>env or {}\<close> turns a missing mapping into the empty one.\<close>

definition MCPClient :: "string \<Rightarrow> string list \<Rightarrow> (string \<Rightarrow> string option) option \<Rightarrow> client" where
  "MCPClient cmd as e =
     \<lparr>command = cmd, args = as, env = (case e of None \<Rightarrow> Map.empty | Some m \<Rightarrow> m),
      session = None, exit_stack = None\<rparr>"

text \<open>
  \<^verbatim>\<open>await exit_stack.aclose()\<close>: the stack exits everything it holds, last
  entered first, and is empty afterwards whether or not an exit raised; with nothing to
  exit it cannot raise.
\<close>

definition aclose :: "world \<Rightarrow> resource list \<Rightarrow> exn option \<times> event list" where
  "aclose w st = (if st = [] then (None, []) else (aclose_res w, map Released st))"

text \<open>The body of the \<^verbatim>\<open>try\<close> block of \<^verbatim>\<open>_ensure_connection\<close> (lines 115-128).\<close>

definition connect :: "world \<Rightarrow> stdio_params \<Rightarrow> client \<Rightarrow> (exn + unit) \<times> client \<times> event list" where
  "connect w params c =
     (case stdio_enter w of
        Some e \<Rightarrow> (Inl e, c, [Launch params])
      | None \<Rightarrow>
          (let c1 = c\<lparr>exit_stack := map_option (\<lambda>st. StdioTransport # st) (exit_stack c)\<rparr> in
           case session_enter w of
             Some e \<Rightarrow> (Inl e, c1, [Launch params, Acquired StdioTransport])
           | None \<Rightarrow>
               (let c2 = c1\<lparr>exit_stack := map_option (\<lambda>st. ProtocolSession # st) (exit_stack c1),
                            session := Some ClientSession\<rparr> in
                case initialize_res w of
                  Some e \<Rightarrow>
                    (Inl e, c2,
                     [Launch params, Acquired StdioTransport, Acquired ProtocolSession, Initialize])
                | None \<Rightarrow>
                    (Inr (), c2,
                     [Launch params, Acquired StdioTransport, Acquired ProtocolSession, Initialize]))))"

text \<open>
  \<^verbatim>\<open>_ensure_connection\<close> (lines 95-136). In the handler, an
  \<^verbatim>\<open>aclose\<close> that raises leaves the two assignments and the bare
  \<^verbatim>\<open>raise\<close> after it unexecuted: its own exception goes to the caller.
\<close>

definition ensure_connection :: "world \<Rightarrow> client \<Rightarrow> (exn + unit) \<times> client \<times> event list" where
  "ensure_connection w c =
     (if session c = None then
        (let server_env = os_environ w ++ env c;
             server_params = \<lparr>sp_command = command c, sp_args = args c, sp_env = server_env\<rparr>;
             c0 = c\<lparr>exit_stack := Some []\<rparr>
         in case connect w server_params c0 of
              (Inr u, c1, tr) \<Rightarrow> (Inr u, c1, tr)
            | (Inl e, c1, tr) \<Rightarrow>
                (case exit_stack c1 of
                   Some st \<Rightarrow>
                     (case aclose w st of
                        (None, rel) \<Rightarrow> (Inl e, c1\<lparr>exit_stack := None, session := None\<rparr>, tr @ rel)
                      | (Some e', rel) \<Rightarrow> (Inl e', c1\<lparr>exit_stack := Some []\<rparr>, tr @ rel))
                 | None \<Rightarrow> (Inl e, c1\<lparr>session := None\<rparr>, tr)))
      else (Inr (), c, []))"

text \<open>
  \<^verbatim>\<open>self.session.list_tools()\<close> and \<^verbatim>\<open>self.session.call_tool(...)\<close>:
  an attribute of \<open>None\<close> raises \<^verbatim>\<open>AttributeError\<close>.
\<close>

definition MCPClient_list_tools :: "world \<Rightarrow> client \<Rightarrow> (exn + tool list) \<times> client \<times> event list" where
  "MCPClient_list_tools w c =
     (case ensure_connection w c of
        (Inl e, c1, tr) \<Rightarrow> (Inl e, c1, tr)
      | (Inr u, c1, tr) \<Rightarrow>
          (case session c1 of
             None \<Rightarrow> (Inl (attribute_error PNone ''list_tools''), c1, tr)
           | Some s \<Rightarrow> (list_tools_res w, c1, tr @ [ListTools])))"

definition MCPClient_call_tool :: "world \<Rightarrow> pyval \<Rightarrow> pyval \<Rightarrow> client \<Rightarrow> (exn + content list) \<times> client \<times> event list" where
  "MCPClient_call_tool w name arguments c =
     (case ensure_connection w c of
        (Inl e, c1, tr) \<Rightarrow> (Inl e, c1, tr)
      | (Inr u, c1, tr) \<Rightarrow>
          (case session c1 of
             None \<Rightarrow> (Inl (attribute_error PNone ''call_tool''), c1, tr)
           | Some s \<Rightarrow> (call_tool_res w name arguments, c1, tr @ [CallTool name arguments])))"

text \<open>\<^verbatim>\<open>close\<close> (lines 150-155).\<close>

definition close :: "world \<Rightarrow> client \<Rightarrow> (exn + unit) \<times> client \<times> event list" where
  "close w c =
     (case exit_stack c of
        Some st \<Rightarrow>
          (case aclose w st of
             (None, rel) \<Rightarrow> (Inr (), c\<lparr>session := None, exit_stack := None\<rparr>, rel)
           | (Some e, rel) \<Rightarrow> (Inl e, c\<lparr>exit_stack := Some []\<rparr>, rel))
      | None \<Rightarrow> (Inr (), c\<lparr>session := None, exit_stack := None\<rparr>, []))"

text \<open>Reading a trace: the launches, and the resources still held at its end.\<close>

fun launches :: "event list \<Rightarrow> nat" where
  "launches [] = 0"
| "launches (Launch p # tr) = Suc (launches tr)"
| "launches (ev # tr) = launches tr"

fun held :: "resource list \<Rightarrow> event list \<Rightarrow> resource list" where
  "held h [] = h"
| "held h (Acquired r # tr) = held (r # h) tr"
| "held h (Released r # tr) = held (remove1 r h) tr"
| "held h (ev # tr) = held h tr"

fun acquired :: "event list \<Rightarrow> resource list" where
  "acquired [] = []"
| "acquired (Acquired r # tr) = r # acquired tr"
| "acquired (ev # tr) = acquired tr"

fun released :: "event list \<Rightarrow> resource list" where
  "released [] = []"
| "released (Released r # tr) = r # released tr"
| "released (ev # tr) = released tr"

text \<open>The exception, if any, that the connect sequence raises: that of its first failing step.\<close>

definition connect_failure :: "world \<Rightarrow> exn option" where
  "connect_failure w =
     (case stdio_enter w of
        Some e \<Rightarrow> Some e
      | None \<Rightarrow> (case session_enter w of Some e \<Rightarrow> Some e | None \<Rightarrow> initialize_res w))"

text \<open>
  A run of calls on the one client, each with the world it meets: what a sequence of
  requests does to the session manager when they are served one after the other.
\<close>

datatype call = ListToolsCall | CallToolCall pyval pyval

fun run_calls :: "(world \<times> call) list \<Rightarrow> client \<Rightarrow> client \<times> event list" where
  "run_calls [] c = (c, [])"
| "run_calls ((w, ListToolsCall) # rest) c =
     (case MCPClient_list_tools w c of
        (r, c1, tr) \<Rightarrow> (case run_calls rest c1 of (c2, tr2) \<Rightarrow> (c2, tr @ tr2)))"
| "run_calls ((w, CallToolCall n a) # rest) c =
     (case MCPClient_call_tool w n a c of
        (r, c1, tr) \<Rightarrow> (case run_calls rest c1 of (c2, tr2) \<Rightarrow> (c2, tr @ tr2)))"

section \<open>The request bridge\<close>

text \<open>
  \<^verbatim>\<open>run_async\<close> (lines 37-41) hands the coroutine to the background loop and
  waits for \<^verbatim>\<open>future.result(timeout=120)\<close>: the coroutine's result or
  exception when the wait ends in time, \<^verbatim>\<open>TimeoutError\<close> (whose text is
  empty) otherwise. Nothing cancels the coroutine, so what it does to the client is the
  same in both cases. The loop, its thread and elapsed time are not modelled: the world
  says how the wait ended, and operations are taken one at a time.
\<close>

definition run_async ::
  "world \<Rightarrow> (client \<Rightarrow> (exn + 'a) \<times> client \<times> event list) \<Rightarrow> client \<Rightarrow> (exn + 'a) \<times> client \<times> event list" where
  "run_async w coro c =
     (case coro c of
        (r, c1, tr) \<Rightarrow>
          ((case wait_res w of Completed \<Rightarrow> r | TimedOut \<Rightarrow> Inl (Exc ''TimeoutError'' [])), c1, tr))"

section \<open>The HTTP handlers\<close>

text \<open>
  A handler returns the pair \<^verbatim>\<open>(jsonify(body), status)\<close>, or raises: the
  result type keeps both, so that "the handler returns" is a statement about it.
\<close>

type_synonym response = "pyval \<times> nat"

definition error_response :: "exn \<Rightarrow> response" where
  "error_response e = (PDict [(''error'', PStr (exc_str e))], 500)"

definition tool_json :: "tool \<Rightarrow> pyval" where
  "tool_json t =
     PDict [(''name'', PStr (t_name t)),
            (''description'', PStr (case t_description t of None \<Rightarrow> [] | Some d \<Rightarrow> d)),
            (''inputSchema'', t_inputSchema t)]"

definition content_json :: "content \<Rightarrow> pyval" where
  "content_json x =
     PDict [(''type'', PStr (c_type x)),
            (''text'', PStr (case c_text x of Some t \<Rightarrow> t | None \<Rightarrow> c_str x))]"

text \<open>\<^verbatim>\<open>list_tools\<close>, the handler of /mcp/list_tools (lines 176-196).\<close>

definition list_tools :: "world \<Rightarrow> client \<Rightarrow> (exn + response) \<times> client \<times> event list" where
  "list_tools w c =
     (case run_async w (MCPClient_list_tools w) c of
        (Inr tools, c1, tr) \<Rightarrow> (Inr (PDict [(''tools'', PList (map tool_json tools))], 200), c1, tr)
      | (Inl e, c1, tr) \<Rightarrow> (Inr (error_response e), c1, tr))"

text \<open>\<^verbatim>\<open>data.get(key, default)\<close>: only a dictionary has the method.\<close>

definition dict_get :: "pyval \<Rightarrow> string \<Rightarrow> pyval \<Rightarrow> exn + pyval" where
  "dict_get d k dflt =
     (case d of
        PDict kvs \<Rightarrow> Inr (case map_of kvs k of None \<Rightarrow> dflt | Some v \<Rightarrow> v)
      | _ \<Rightarrow> Inl (attribute_error d ''get''))"

text \<open>The \<^verbatim>\<open>try\<close> block of the handler of /mcp/call_tool (lines 202-220).\<close>

definition call_tool_try :: "world \<Rightarrow> client \<Rightarrow> (exn + response) \<times> client \<times> event list" where
  "call_tool_try w c =
     (case request_json w of
        Inl e \<Rightarrow> (Inl e, c, [])
      | Inr data \<Rightarrow>
          (case dict_get data ''name'' PNone of
             Inl e \<Rightarrow> (Inl e, c, [])
           | Inr tool_name \<Rightarrow>
               (case dict_get data ''arguments'' (PDict []) of
                  Inl e \<Rightarrow> (Inl e, c, [])
                | Inr tool_args \<Rightarrow>
                    if \<not> truthy tool_name
                    then (Inr (PDict [(''error'', PStr ''Tool name is required'')], 400), c, [])
                    else
                      (case run_async w (MCPClient_call_tool w tool_name tool_args) c of
                         (Inl e, c1, tr) \<Rightarrow> (Inl e, c1, tr)
                       | (Inr cs, c1, tr) \<Rightarrow>
                           (Inr (PDict [(''content'', PList (map content_json cs))], 200), c1, tr)))))"

text \<open>\<^verbatim>\<open>call_tool\<close>: the block above under its \<^verbatim>\<open>except Exception\<close> (lines 198-224).\<close>

definition call_tool :: "world \<Rightarrow> client \<Rightarrow> (exn + response) \<times> client \<times> event list" where
  "call_tool w c =
     (case call_tool_try w c of
        (Inl e, c1, tr) \<Rightarrow> (Inr (error_response e), c1, tr)
      | (Inr r, c1, tr) \<Rightarrow> (Inr r, c1, tr))"

text \<open>The tool invocations of a trace, in order.\<close>

fun invocations :: "event list \<Rightarrow> (pyval \<times> pyval) list" where
  "invocations [] = []"
| "invocations (CallTool n a # tr) = (n, a) # invocations tr"
| "invocations (ev # tr) = invocations tr"

section \<open>Configuration loading and the module globals\<close>

text \<open>
  What \<^verbatim>\<open>load_config\<close> finds at the path of config.yml: no file; a file whose
  \<^verbatim>\<open>open\<close> or \<^verbatim>\<open>yaml.safe_load\<close> raises; or a document, which is
  empty (\<open>None\<close>) or a mapping with string keys. A document that is a scalar or a
  sequence is not modelled.
\<close>

datatype config_file = NoFile | Unloadable exn | Document "(string \<times> pyval) list option"

definition default_config :: "(string \<times> pyval) list" where
  "default_config =
     [(''server'',
       PDict [(''name'', PStr ''generic-mcp-server''),
              (''command'', PStr ''python''),
              (''args'', PList [PStr ''server.py'']),
              (''env'', PDict []),
              (''port'', PInt 3050)])]"

text \<open>
  \<^verbatim>\<open>d.update(other)\<close> on dictionaries: every item of \<open>other\<close> is stored under
  its key, replacing the value the key had.
\<close>

definition dict_update :: "(string \<times> pyval) list \<Rightarrow> (string \<times> pyval) list \<Rightarrow> (string \<times> pyval) list" where
  "dict_update d other = fold (\<lambda>(k, v). AList.update k v) other d"

text \<open>\<^verbatim>\<open>v[k]\<close> with a string \<open>k\<close>.\<close>

definition getitem :: "pyval \<Rightarrow> string \<Rightarrow> exn + pyval" where
  "getitem v k =
     (case v of
        PDict kvs \<Rightarrow> (case map_of kvs k of Some x \<Rightarrow> Inr x | None \<Rightarrow> Inl (Exc ''KeyError'' (quoted k)))
      | PList xs \<Rightarrow> Inl (Exc ''TypeError'' ''list indices must be integers or slices, not str'')
      | PStr s \<Rightarrow> Inl (Exc ''TypeError'' (''string indices must be integers, not '' @ quoted ''str''))
      | _ \<Rightarrow> Inl (Exc ''TypeError'' (quoted (type_name v) @ '' object is not subscriptable'')))"

text \<open>\<^verbatim>\<open>config['server'][key] = x\<close>.\<close>

definition set_server_item :: "(string \<times> pyval) list \<Rightarrow> string \<Rightarrow> pyval \<Rightarrow> exn + (string \<times> pyval) list" where
  "set_server_item config key x =
     (case getitem (PDict config) ''server'' of
        Inl e \<Rightarrow> Inl e
      | Inr (PDict kvs) \<Rightarrow> Inr (AList.update ''server'' (PDict (AList.update key x kvs)) config)
      | Inr (PList xs) \<Rightarrow> Inl (Exc ''TypeError'' ''list indices must be integers or slices, not str'')
      | Inr v \<Rightarrow> Inl (Exc ''TypeError'' (quoted (type_name v) @ '' object does not support item assignment'')))"

text \<open>\<^verbatim>\<open>if os.getenv(k):\<close> holds for a variable that is set and not empty.\<close>

definition getenv_set :: "(string \<Rightarrow> string option) \<Rightarrow> string \<Rightarrow> string option" where
  "getenv_set environ k = (case environ k of None \<Rightarrow> None | Some v \<Rightarrow> if v = [] then None else Some v)"

text \<open>
  \<^verbatim>\<open>load_config\<close> (lines 44-79). \<open>json_loads\<close> and \<open>py_int\<close> are
  \<^verbatim>\<open>json.loads\<close> and \<^verbatim>\<open>int\<close> on a string; both can raise, and nothing
  catches that here. An exception while loading the file is logged and the defaults
  stay.
\<close>

definition load_config ::
  "(string \<Rightarrow> exn + pyval) \<Rightarrow> (string \<Rightarrow> exn + int) \<Rightarrow> config_file \<Rightarrow> (string \<Rightarrow> string option)
     \<Rightarrow> exn + (string \<times> pyval) list" where
  "load_config json_loads py_int file environ =
     (let config0 =
            (case file of
               NoFile \<Rightarrow> default_config
             | Unloadable e \<Rightarrow> default_config
             | Document None \<Rightarrow> default_config
             | Document (Some loaded_config) \<Rightarrow>
                 if loaded_config \<noteq> [] then dict_update default_config loaded_config
                 else default_config)
      in case (case getenv_set environ ''MCP_COMMAND'' of
                 None \<Rightarrow> Inr config0
               | Some v \<Rightarrow> set_server_item config0 ''command'' (PStr v)) of
           Inl e \<Rightarrow> Inl e
         | Inr config1 \<Rightarrow>
             (case (case getenv_set environ ''MCP_ARGS'' of
                      None \<Rightarrow> Inr config1
                    | Some v \<Rightarrow>
                        (case json_loads v of
                           Inl e \<Rightarrow> Inl e
                         | Inr parsed \<Rightarrow> set_server_item config1 ''args'' parsed)) of
                Inl e \<Rightarrow> Inl e
              | Inr config2 \<Rightarrow>
                  (case getenv_set environ ''PORT'' of
                     None \<Rightarrow> Inr config2
                   | Some v \<Rightarrow>
                       (case py_int v of
                          Inl e \<Rightarrow> Inl e
                        | Inr n \<Rightarrow> set_server_item config2 ''port'' (PInt n)))))"

text \<open>
  The module's globals that are read from the configuration at import (lines 81-83 and
  158-162): \<^verbatim>\<open>CONFIG\<close>, \<^verbatim>\<open>PORT\<close>, \<^verbatim>\<open>SERVER_NAME\<close> and the three
  arguments given to \<^verbatim>\<open>MCPClient\<close>. An exception here ends the process before it
  serves.
\<close>

record globals =
  CONFIG :: "(string \<times> pyval) list"
  PORT :: pyval
  SERVER_NAME :: pyval
  client_command :: pyval
  client_args :: pyval
  client_env :: pyval

definition server_item :: "(string \<times> pyval) list \<Rightarrow> string \<Rightarrow> exn + pyval" where
  "server_item config key =
     (case getitem (PDict config) ''server'' of Inl e \<Rightarrow> Inl e | Inr s \<Rightarrow> getitem s key)"

definition module_init ::
  "(string \<Rightarrow> exn + pyval) \<Rightarrow> (string \<Rightarrow> exn + int) \<Rightarrow> config_file \<Rightarrow> (string \<Rightarrow> string option)
     \<Rightarrow> exn + globals" where
  "module_init json_loads py_int file environ =
     (case load_config json_loads py_int file environ of
        Inl e \<Rightarrow> Inl e
      | Inr config \<Rightarrow>
      (case server_item config ''port'' of
        Inl e \<Rightarrow> Inl e
      | Inr port \<Rightarrow>
      (case server_item config ''name'' of
        Inl e \<Rightarrow> Inl e
      | Inr name \<Rightarrow>
      (case server_item config ''command'' of
        Inl e \<Rightarrow> Inl e
      | Inr cmd \<Rightarrow>
      (case server_item config ''args'' of
        Inl e \<Rightarrow> Inl e
      | Inr as \<Rightarrow>
      (case server_item config ''env'' of
        Inl e \<Rightarrow> Inl e
      | Inr ev \<Rightarrow>
          Inr \<lparr>CONFIG = config, PORT = port, SERVER_NAME = name,
               client_command = cmd, client_args = as, client_env = ev\<rparr>))))))"

section \<open>Example inputs\<close>

text \<open>A world in which every library call succeeds; the examples below change single fields.\<close>

definition quiet_world :: world where
  "quiet_world =
     \<lparr>os_environ = Map.empty, stdio_enter = None, session_enter = None, initialize_res = None,
      aclose_res = None, list_tools_res = Inr [], call_tool_res = (\<lambda>n a. Inr []),
      wait_res = Completed, request_json = Inr (PDict [])\<rparr>"

definition fresh_client :: client where
  "fresh_client = MCPClient ''python'' [''server.py''] None"

definition connected_client :: client where
  "connected_client =
     fresh_client\<lparr>session := Some ClientSession, exit_stack := Some [ProtocolSession, StdioTransport]\<rparr>"

text \<open>The handshake fails; and the same with a release that raises as well.\<close>

definition handshake_fails :: world where
  "handshake_fails = quiet_world\<lparr>initialize_res := Some (Exc ''McpError'' ''handshake failed'')\<rparr>"

definition release_fails :: world where
  "release_fails = quiet_world\<lparr>aclose_res := Some (Exc ''RuntimeError'' ''release failed'')\<rparr>"

definition handshake_and_release_fail :: world where
  "handshake_and_release_fail =
     handshake_fails\<lparr>aclose_res := Some (Exc ''RuntimeError'' ''release failed'')\<rparr>"

text \<open>A client configured with two variables, launched in a process environment of two.\<close>

definition overlay_client :: client where
  "overlay_client =
     MCPClient ''node'' [''server.js'']
       (Some [''PATH'' \<mapsto> ''/opt/mcp/bin'', ''API_KEY'' \<mapsto> ''k1''])"

definition overlay_world :: world where
  "overlay_world = quiet_world\<lparr>os_environ := [''PATH'' \<mapsto> ''/usr/bin'', ''HOME'' \<mapsto> ''/root'']\<rparr>"

text \<open>
  Requests to /mcp/call_tool: the body \<^verbatim>\<open>{}\<close>, the body \<^verbatim>\<open>null\<close>, and a
  name with no arguments.
\<close>

definition empty_body_request :: world where
  "empty_body_request = quiet_world\<lparr>request_json := Inr (PDict [])\<rparr>"

definition null_body_request :: world where
  "null_body_request = quiet_world\<lparr>request_json := Inr PNone\<rparr>"

definition search_request :: world where
  "search_request = quiet_world\<lparr>request_json := Inr (PDict [(''name'', PStr ''search'')])\<rparr>"

definition search_times_out :: world where
  "search_times_out = search_request\<lparr>wait_res := TimedOut\<rparr>"

definition listing_fails :: world where
  "listing_fails = quiet_world\<lparr>list_tools_res := Inl (Exc ''McpError'' ''connection closed'')\<rparr>"

text \<open>A config.yml whose server section sets the command and nothing else.\<close>

definition partial_file :: config_file where
  "partial_file = Document (Some [(''server'', PDict [(''command'', PStr ''node'')])])"

section \<open>Properties of traces\<close>

lemma launches_append: "launches (xs @ ys) = launches xs + launches ys"
  by (induction xs rule: launches.induct) simp_all

lemma launches_map_Released: "launches (map Released st) = 0"
  by (induction st) simp_all

lemma released_map_Released: "released (map Released st) = st"
  by (induction st) simp_all

lemma invocations_append: "invocations (xs @ ys) = invocations xs @ invocations ys"
  by (induction xs rule: invocations.induct) simp_all

lemma invocations_map_Released: "invocations (map Released st) = []"
  by (induction st) simp_all

section \<open>Properties of the session manager\<close>

lemma ensure_connection_connected:
  "session c \<noteq> None \<Longrightarrow> ensure_connection w c = (Inr (), c, [])"
  by (auto simp add: ensure_connection_def)

lemma ensure_connection_success:
  assumes "session c = None" and "connect_failure w = None"
  shows "ensure_connection w c =
           (Inr (),
            c\<lparr>exit_stack := Some [ProtocolSession, StdioTransport], session := Some ClientSession\<rparr>,
            [Launch \<lparr>sp_command = command c, sp_args = args c, sp_env = os_environ w ++ env c\<rparr>,
             Acquired StdioTransport, Acquired ProtocolSession, Initialize])"
  using assms
  by (simp add: ensure_connection_def connect_def connect_failure_def Let_def split: option.splits)

lemma ensure_connection_invocations:
  "ensure_connection w c = (r, c1, tr) \<Longrightarrow> invocations tr = []"
  by (auto simp add: ensure_connection_def connect_def aclose_def Let_def invocations_append
        invocations_map_Released split: option.splits if_splits)

lemma MCPClient_list_tools_connected:
  "session c \<noteq> None \<Longrightarrow> MCPClient_list_tools w c = (list_tools_res w, c, [ListTools])"
  by (auto simp add: MCPClient_list_tools_def ensure_connection_connected)

lemma MCPClient_call_tool_connected:
  "session c \<noteq> None \<Longrightarrow>
     MCPClient_call_tool w n a c = (call_tool_res w n a, c, [CallTool n a])"
  by (auto simp add: MCPClient_call_tool_def ensure_connection_connected)

lemma MCPClient_list_tools_first:
  assumes "session c = None" and "connect_failure w = None"
  shows "\<exists>r c1 tr. MCPClient_list_tools w c = (r, c1, tr) \<and> session c1 \<noteq> None \<and> launches tr = 1"
  using assms by (simp add: MCPClient_list_tools_def ensure_connection_success)

lemma MCPClient_call_tool_first:
  assumes "session c = None" and "connect_failure w = None"
  shows "\<exists>r c1 tr. MCPClient_call_tool w n a c = (r, c1, tr) \<and> session c1 \<noteq> None \<and> launches tr = 1"
  using assms by (simp add: MCPClient_call_tool_def ensure_connection_success)

text \<open>Once a session is set, no run of calls launches again or changes the client.\<close>

lemma run_calls_connected:
  "session c \<noteq> None \<Longrightarrow> fst (run_calls calls c) = c \<and> launches (snd (run_calls calls c)) = 0"
proof (induction calls c rule: run_calls.induct)
  case (1 c)
  then show ?case by simp
next
  case (2 w rest c)
  then show ?case
    by (auto simp add: MCPClient_list_tools_connected split: prod.splits)
next
  case (3 w n a rest c)
  then show ?case
    by (auto simp add: MCPClient_call_tool_connected split: prod.splits)
qed

text \<open>
  The path of \<^verbatim>\<open>_ensure_connection\<close> on which the release succeeds: when a step
  of the connect sequence fails with \<open>e\<close> and the release of what was acquired does
  not raise (nothing is held, so nothing can raise, when the launch itself failed), then
  \<open>e\<close> is the exception the caller gets, \<open>session\<close> and \<open>exit_stack\<close> are both
  \<open>None\<close>, every resource that was acquired has been released, last acquired first,
  and the client equals a newly constructed one with the same configuration.
\<close>

lemma ensure_connection_failure_release_ok:
  assumes "session c = None" and "connect_failure w = Some e"
      and "aclose_res w = None \<or> stdio_enter w \<noteq> None"
  shows "\<exists>tr. ensure_connection w c = (Inl e, c\<lparr>session := None, exit_stack := None\<rparr>, tr)
            \<and> held [] tr = [] \<and> released tr = rev (acquired tr)
            \<and> c\<lparr>session := None, exit_stack := None\<rparr> = MCPClient (command c) (args c) (Some (env c))"
  using assms
  by (auto simp add: ensure_connection_def connect_def connect_failure_def aclose_def Let_def
        MCPClient_def split: option.splits)

text \<open>
  C1, evaluated where the code breaks it: on a new client the handshake fails and the
  release of the transport and session raises too. The connect sequence failed with the
  handshake's exception, yet the caller gets the release's; both resources have been
  released, yet the \<open>session\<close> field stays set and \<open>exit_stack\<close> is not \<open>None\<close>,
  because the two assignments and the \<^verbatim>\<open>raise\<close> of lines 134-136 come after the
  \<^verbatim>\<open>aclose\<close> that raised; and the next \<^verbatim>\<open>_ensure_connection\<close>, in a
  world where everything would succeed, finds a session and does nothing. With the same
  handshake failure and a release that succeeds, the same code gives the handshake's
  exception and the new client back.
\<close>

theorem ensure_connection_release_raises:
  "session fresh_client = None
   \<and> connect_failure handshake_and_release_fail = Some (Exc ''McpError'' ''handshake failed'')
   \<and> fst (ensure_connection handshake_and_release_fail fresh_client) =
         Inl (Exc ''RuntimeError'' ''release failed'')
   \<and> released (snd (snd (ensure_connection handshake_and_release_fail fresh_client))) =
         [ProtocolSession, StdioTransport]
   \<and> session (fst (snd (ensure_connection handshake_and_release_fail fresh_client))) =
         Some ClientSession
   \<and> exit_stack (fst (snd (ensure_connection handshake_and_release_fail fresh_client))) = Some []
   \<and> snd (snd (ensure_connection quiet_world
         (fst (snd (ensure_connection handshake_and_release_fail fresh_client))))) = []
   \<and> fst (ensure_connection handshake_fails fresh_client) =
         Inl (Exc ''McpError'' ''handshake failed'')
   \<and> fst (snd (ensure_connection handshake_fails fresh_client)) = fresh_client"
  by (simp add: ensure_connection_def connect_def connect_failure_def aclose_def Let_def
        handshake_and_release_fail_def handshake_fails_def quiet_world_def fresh_client_def
        MCPClient_def)

text \<open>
  C2. Whatever the configuration of the client: when no session is set and the connect
  sequence succeeds, a call of \<^verbatim>\<open>list_tools\<close> or \<^verbatim>\<open>call_tool\<close> launches the
  subprocess exactly once and leaves a session set, and no run of later calls on that
  client launches again; and when a session is set, \<^verbatim>\<open>_ensure_connection\<close>
  returns at once, with the client unchanged and no interaction at all.
\<close>

theorem first_call_launches_once:
  "(session c \<noteq> None \<longrightarrow>
      ensure_connection w c = (Inr (), c, []) \<and> launches (snd (run_calls calls c)) = 0)
   \<and> (session c = None \<and> connect_failure w = None \<longrightarrow>
        (\<exists>r c1 tr. MCPClient_list_tools w c = (r, c1, tr) \<and> launches tr = 1
            \<and> session c1 \<noteq> None \<and> launches (snd (run_calls calls c1)) = 0)
      \<and> (\<exists>r c1 tr. MCPClient_call_tool w n a c = (r, c1, tr) \<and> launches tr = 1
            \<and> session c1 \<noteq> None \<and> launches (snd (run_calls calls c1)) = 0))"
proof (intro conjI impI)
  assume "session c \<noteq> None"
  then show "ensure_connection w c = (Inr (), c, [])"
    by (rule ensure_connection_connected)
next
  assume "session c \<noteq> None"
  then show "launches (snd (run_calls calls c)) = 0"
    by (simp add: run_calls_connected)
next
  assume h: "session c = None \<and> connect_failure w = None"
  then obtain r c1 tr where
    "MCPClient_list_tools w c = (r, c1, tr)" "session c1 \<noteq> None" "launches tr = 1"
    using MCPClient_list_tools_first by blast
  then show "\<exists>r c1 tr. MCPClient_list_tools w c = (r, c1, tr) \<and> launches tr = 1
      \<and> session c1 \<noteq> None \<and> launches (snd (run_calls calls c1)) = 0"
    using run_calls_connected by blast
next
  assume h: "session c = None \<and> connect_failure w = None"
  then obtain r c1 tr where
    "MCPClient_call_tool w n a c = (r, c1, tr)" "session c1 \<noteq> None" "launches tr = 1"
    using MCPClient_call_tool_first by blast
  then show "\<exists>r c1 tr. MCPClient_call_tool w n a c = (r, c1, tr) \<and> launches tr = 1
      \<and> session c1 \<noteq> None \<and> launches (snd (run_calls calls c1)) = 0"
    using run_calls_connected by blast
qed

text \<open>
  Witness for C2: three requests on a new client in a world where everything succeeds
  launch once in all, and a connected client is left alone.
\<close>

theorem first_call_launches_once_witness:
  "session fresh_client = None \<and> connect_failure quiet_world = None
   \<and> session connected_client \<noteq> None
   \<and> ensure_connection quiet_world connected_client = (Inr (), connected_client, [])
   \<and> (\<exists>r c1 tr. MCPClient_list_tools quiet_world fresh_client = (r, c1, tr) \<and> launches tr = 1
          \<and> launches (snd (run_calls [(quiet_world, CallToolCall (PStr ''search'') (PDict [])),
                                       (quiet_world, ListToolsCall)] c1)) = 0)"
proof -
  have s: "session fresh_client = None"
    by (simp add: fresh_client_def MCPClient_def)
  have f: "connect_failure quiet_world = None"
    by (simp add: connect_failure_def quiet_world_def)
  have k: "session connected_client \<noteq> None"
    by (simp add: connected_client_def)
  from first_call_launches_once [of connected_client quiet_world "[]" "PNone" "PNone"] k
  have n: "ensure_connection quiet_world connected_client = (Inr (), connected_client, [])"
    by blast
  from first_call_launches_once [of fresh_client quiet_world
      "[(quiet_world, CallToolCall (PStr ''search'') (PDict [])), (quiet_world, ListToolsCall)]"
      "PNone" "PNone"] s f
  have "\<exists>r c1 tr. MCPClient_list_tools quiet_world fresh_client = (r, c1, tr) \<and> launches tr = 1
          \<and> session c1 \<noteq> None
          \<and> launches (snd (run_calls [(quiet_world, CallToolCall (PStr ''search'') (PDict [])),
                                       (quiet_world, ListToolsCall)] c1)) = 0"
    by blast
  with s f k n show ?thesis by blast
qed

text \<open>
  The two ways \<^verbatim>\<open>close\<close> ends. It returns with \<open>session\<close> and
  \<open>exit_stack\<close> both \<open>None\<close>, having released what the stack held, whenever there
  is no exit stack, the stack holds nothing, or the release does not raise. When the
  stack holds something and its release raises \<open>e\<close>, it raises \<open>e\<close> before lines
  154-155 are reached.
\<close>

lemma close_cases:
  "(exit_stack c = None \<or> exit_stack c = Some [] \<or> aclose_res w = None \<longrightarrow>
      (\<exists>tr. close w c = (Inr (), c\<lparr>session := None, exit_stack := None\<rparr>, tr)
            \<and> released tr = (case exit_stack c of None \<Rightarrow> [] | Some st \<Rightarrow> st)))
   \<and> (\<forall>st e. exit_stack c = Some st \<and> st \<noteq> [] \<and> aclose_res w = Some e \<longrightarrow>
        close w c = (Inl e, c\<lparr>exit_stack := Some []\<rparr>, map Released st))"
  by (auto simp add: close_def aclose_def released_map_Released split: option.splits)

text \<open>
  C3, evaluated where the code breaks it: \<^verbatim>\<open>close\<close> on a connected client when
  the release raises. Both resources have been released, but the exception leaves
  \<^verbatim>\<open>close\<close> before the two assignments of lines 154-155: \<open>session\<close> stays set
  and \<open>exit_stack\<close> is not \<open>None\<close>, and the next \<^verbatim>\<open>_ensure_connection\<close>, in
  a world where everything would succeed, finds a session and does nothing. When the
  release succeeds the same call clears both fields.
\<close>

theorem close_release_raises:
  "session connected_client = Some ClientSession
   \<and> exit_stack connected_client = Some [ProtocolSession, StdioTransport]
   \<and> fst (close release_fails connected_client) = Inl (Exc ''RuntimeError'' ''release failed'')
   \<and> released (snd (snd (close release_fails connected_client))) =
         [ProtocolSession, StdioTransport]
   \<and> session (fst (snd (close release_fails connected_client))) = Some ClientSession
   \<and> exit_stack (fst (snd (close release_fails connected_client))) = Some []
   \<and> snd (snd (ensure_connection quiet_world
         (fst (snd (close release_fails connected_client))))) = []
   \<and> fst (close quiet_world connected_client) = Inr ()
   \<and> session (fst (snd (close quiet_world connected_client))) = None
   \<and> exit_stack (fst (snd (close quiet_world connected_client))) = None"
  by (simp add: close_def aclose_def ensure_connection_def release_fails_def quiet_world_def
        connected_client_def fresh_client_def MCPClient_def)

text \<open>
  C9. When \<^verbatim>\<open>_ensure_connection\<close> finds no session, the first thing it does is
  the launch, with the configured command and arguments and an environment in which every
  key of the configured mapping has the configured value and every other key has the
  value (or the absence) it has in the process environment; it launches once.
\<close>

theorem launch_environment_overlay:
  assumes "session c = None"
  shows "\<exists>p r c1 tr. ensure_connection w c = (r, c1, Launch p # tr) \<and> launches tr = 0
           \<and> sp_command p = command c \<and> sp_args p = args c
           \<and> (\<forall>k v. env c k = Some v \<longrightarrow> sp_env p k = Some v)
           \<and> (\<forall>k. env c k = None \<longrightarrow> sp_env p k = os_environ w k)"
  using assms
  by (auto simp add: ensure_connection_def connect_def aclose_def Let_def launches_append
        launches_map_Released map_add_def split: option.splits)

text \<open>
  Witness for C9: the configured \<open>PATH\<close> wins over the process's, \<open>HOME\<close> comes
  from the process, \<open>API_KEY\<close> from the configuration.
\<close>

theorem launch_environment_overlay_witness:
  "session overlay_client = None
   \<and> (\<exists>p r c1 tr. ensure_connection overlay_world overlay_client = (r, c1, Launch p # tr)
          \<and> sp_command p = ''node'' \<and> sp_args p = [''server.js'']
          \<and> sp_env p ''PATH'' = Some ''/opt/mcp/bin''
          \<and> sp_env p ''API_KEY'' = Some ''k1''
          \<and> sp_env p ''HOME'' = Some ''/root''
          \<and> sp_env p ''LANG'' = None)"
proof -
  have s: "session overlay_client = None"
    by (simp add: overlay_client_def MCPClient_def)
  from launch_environment_overlay [OF s, of overlay_world] obtain p r c1 tr where
    h: "ensure_connection overlay_world overlay_client = (r, c1, Launch p # tr)"
       "sp_command p = command overlay_client" "sp_args p = args overlay_client"
       "\<forall>k v. env overlay_client k = Some v \<longrightarrow> sp_env p k = Some v"
       "\<forall>k. env overlay_client k = None \<longrightarrow> sp_env p k = os_environ overlay_world k"
    by blast
  have e1: "env overlay_client ''PATH'' = Some ''/opt/mcp/bin''"
    and e2: "env overlay_client ''API_KEY'' = Some ''k1''"
    and e3: "env overlay_client ''HOME'' = None"
    and e4: "env overlay_client ''LANG'' = None"
    by (simp_all add: overlay_client_def MCPClient_def)
  have o3: "os_environ overlay_world ''HOME'' = Some ''/root''"
    and o4: "os_environ overlay_world ''LANG'' = None"
    by (simp_all add: overlay_world_def quiet_world_def)
  have c: "command overlay_client = ''node''" "args overlay_client = [''server.js'']"
    by (simp_all add: overlay_client_def MCPClient_def)
  from h(4) e1 have p1: "sp_env p ''PATH'' = Some ''/opt/mcp/bin''" by blast
  from h(4) e2 have p2: "sp_env p ''API_KEY'' = Some ''k1''" by blast
  from h(5) e3 o3 have p3: "sp_env p ''HOME'' = Some ''/root''" by simp
  from h(5) e4 o4 have p4: "sp_env p ''LANG'' = None" by simp
  from s h(1) h(2) h(3) c p1 p2 p3 p4 show ?thesis by auto
qed

section \<open>Properties of the HTTP handlers\<close>

lemma MCPClient_call_tool_invocations:
  "MCPClient_call_tool w n a c = (r, c1, tr) \<Longrightarrow> set (invocations tr) \<subseteq> {(n, a)}"
  by (auto simp add: MCPClient_call_tool_def invocations_append
        dest: ensure_connection_invocations split: prod.splits sum.splits option.splits)

lemma MCPClient_call_tool_reaches:
  assumes "session c \<noteq> None \<or> connect_failure w = None"
  shows "\<exists>c1 tr. MCPClient_call_tool w n a c = (call_tool_res w n a, c1, tr)
           \<and> invocations tr = [(n, a)]"
proof (cases "session c")
  case None
  with assms have "connect_failure w = None" by simp
  with None show ?thesis
    by (simp add: MCPClient_call_tool_def ensure_connection_success)
next
  case (Some s)
  then show ?thesis by (simp add: MCPClient_call_tool_connected)
qed

lemma list_tools_returns:
  "\<exists>resp c1 tr. list_tools w c = (Inr resp, c1, tr) \<and> snd resp \<in> {200, 500}"
  by (auto simp add: list_tools_def error_response_def split: prod.splits sum.splits)

lemma call_tool_returns:
  "\<exists>resp c1 tr. call_tool w c = (Inr resp, c1, tr) \<and> snd resp \<in> {200, 400, 500}"
  by (auto simp add: call_tool_def call_tool_try_def error_response_def
        split: prod.splits sum.splits)

lemma list_tools_failure:
  "fst (run_async w (MCPClient_list_tools w) c) = Inl e \<Longrightarrow>
     fst (list_tools w c) = Inr (PDict [(''error'', PStr (exc_str e))], 500)"
  by (auto simp add: list_tools_def error_response_def split: prod.splits sum.splits)

lemma call_tool_failure:
  "request_json w = Inr data \<Longrightarrow> dict_get data ''name'' PNone = Inr n \<Longrightarrow>
   dict_get data ''arguments'' (PDict []) = Inr a \<Longrightarrow> truthy n \<Longrightarrow>
   fst (run_async w (MCPClient_call_tool w n a) c) = Inl e \<Longrightarrow>
     fst (call_tool w c) = Inr (PDict [(''error'', PStr (exc_str e))], 500)"
  by (auto simp add: call_tool_def call_tool_try_def error_response_def
        split: prod.splits sum.splits)

lemma call_tool_400:
  "call_tool w c = (Inr (body, 400), c1, tr) \<Longrightarrow>
     \<exists>data n. request_json w = Inr data \<and> dict_get data ''name'' PNone = Inr n \<and> \<not> truthy n"
  by (auto simp add: call_tool_def call_tool_try_def error_response_def
        split: prod.splits sum.splits if_splits)

lemma run_async_timeout:
  "wait_res w = TimedOut \<Longrightarrow> fst (run_async w coro c) = Inl (Exc ''TimeoutError'' [])"
  by (simp add: run_async_def split: prod.splits)

lemma run_async_completed:
  "wait_res w = Completed \<Longrightarrow> run_async w coro c = coro c"
  by (simp add: run_async_def split: prod.splits)

text \<open>
  C6 (as amended). A request to /mcp/call_tool whose body is a JSON object with no
  \<open>name\<close> key, or with a \<open>name\<close> that is empty (any value Python counts as false:
  the empty string, null, 0, false, an empty list or object), is answered with status 400
  and the body
  \<^verbatim>\<open>{"error": "Tool name is required"}\<close>; the client is unchanged and nothing was
  sent to or started for the subprocess.
\<close>

theorem call_tool_requires_name:
  assumes "request_json w = Inr (PDict kvs)"
      and "map_of kvs ''name'' = None \<or> (\<exists>v. map_of kvs ''name'' = Some v \<and> \<not> truthy v)"
  shows "call_tool w c = (Inr (PDict [(''error'', PStr ''Tool name is required'')], 400), c, [])"
  using assms by (auto simp add: call_tool_def call_tool_try_def dict_get_def)

text \<open>
  Witness for C6: the body \<^verbatim>\<open>{}\<close> on a client that has never connected.
\<close>

theorem call_tool_requires_name_witness:
  "request_json empty_body_request = Inr (PDict [])
   \<and> map_of ([] :: (string \<times> pyval) list) ''name'' = None
   \<and> call_tool empty_body_request fresh_client =
        (Inr (PDict [(''error'', PStr ''Tool name is required'')], 400), fresh_client, [])"
proof -
  have r: "request_json empty_body_request = Inr (PDict [])"
    by (simp add: empty_body_request_def quiet_world_def)
  have n: "map_of ([] :: (string \<times> pyval) list) ''name'' = None
             \<or> (\<exists>v. map_of ([] :: (string \<times> pyval) list) ''name'' = Some v \<and> \<not> truthy v)"
    by simp
  from call_tool_requires_name [OF r n, of fresh_client] r show ?thesis by simp
qed

text \<open>
  Counterexample to C6 as stated: the body \<^verbatim>\<open>null\<close> has no \<open>name\<close> key, and
  the answer is not 400 with "Tool name is required" but 500 with the text of the
  \<^verbatim>\<open>AttributeError\<close> that \<^verbatim>\<open>data.get\<close> raised on line 203.
\<close>

theorem call_tool_null_body:
  "request_json null_body_request = Inr PNone
   \<and> call_tool null_body_request fresh_client =
        (Inr (PDict [(''error'',
                      PStr (quoted ''NoneType'' @ '' object has no attribute '' @ quoted ''get''))],
              500),
         fresh_client, [])
   \<and> call_tool null_body_request fresh_client \<noteq>
        (Inr (PDict [(''error'', PStr ''Tool name is required'')], 400), fresh_client, [])"
  by (simp add: call_tool_def call_tool_try_def dict_get_def attribute_error_def
        error_response_def null_body_request_def quiet_world_def)

text \<open>
  C7. Both handlers always return a response and never raise: /mcp/list_tools with status
  200 or 500, /mcp/call_tool with 200, 400 or 500. Whenever the bridged session-manager
  operation fails with \<open>e\<close> (a failure of the connection, of the protocol request, or
  the bridge's timeout), the response is status 500 with body
  \<^verbatim>\<open>{"error": str(e)}\<close>. Status 400 is given only when the request's name is
  missing or empty. And in the state any request leaves behind, the next request, whatever
  it meets, is answered too.
\<close>

theorem handlers_answer_failures:
  "(\<exists>resp c1 tr. list_tools w c = (Inr resp, c1, tr) \<and> snd resp \<in> {200, 500})
   \<and> (\<exists>resp c1 tr. call_tool w c = (Inr resp, c1, tr) \<and> snd resp \<in> {200, 400, 500})
   \<and> (\<forall>e. fst (run_async w (MCPClient_list_tools w) c) = Inl e \<longrightarrow>
          fst (list_tools w c) = Inr (PDict [(''error'', PStr (exc_str e))], 500))
   \<and> (\<forall>data n a e. request_json w = Inr data \<and> dict_get data ''name'' PNone = Inr n
          \<and> dict_get data ''arguments'' (PDict []) = Inr a \<and> truthy n
          \<and> fst (run_async w (MCPClient_call_tool w n a) c) = Inl e \<longrightarrow>
          fst (call_tool w c) = Inr (PDict [(''error'', PStr (exc_str e))], 500))
   \<and> (wait_res w = TimedOut \<longrightarrow> fst (list_tools w c) = Inr (PDict [(''error'', PStr [])], 500))
   \<and> (\<forall>body c1 tr. call_tool w c = (Inr (body, 400), c1, tr) \<longrightarrow>
          (\<exists>data n. request_json w = Inr data \<and> dict_get data ''name'' PNone = Inr n
              \<and> \<not> truthy n))
   \<and> (\<forall>w2. \<exists>resp. fst (call_tool w2 (fst (snd (list_tools w c)))) = Inr resp)
   \<and> (\<forall>w2. \<exists>resp. fst (list_tools w2 (fst (snd (call_tool w c)))) = Inr resp)"
proof (intro conjI allI impI)
  show "\<exists>resp c1 tr. list_tools w c = (Inr resp, c1, tr) \<and> snd resp \<in> {200, 500}"
    by (rule list_tools_returns)
next
  show "\<exists>resp c1 tr. call_tool w c = (Inr resp, c1, tr) \<and> snd resp \<in> {200, 400, 500}"
    by (rule call_tool_returns)
next
  fix e
  assume "fst (run_async w (MCPClient_list_tools w) c) = Inl e"
  then show "fst (list_tools w c) = Inr (PDict [(''error'', PStr (exc_str e))], 500)"
    by (rule list_tools_failure)
next
  fix data n a e
  assume "request_json w = Inr data \<and> dict_get data ''name'' PNone = Inr n
          \<and> dict_get data ''arguments'' (PDict []) = Inr a \<and> truthy n
          \<and> fst (run_async w (MCPClient_call_tool w n a) c) = Inl e"
  then show "fst (call_tool w c) = Inr (PDict [(''error'', PStr (exc_str e))], 500)"
    using call_tool_failure by blast
next
  assume "wait_res w = TimedOut"
  then have "fst (run_async w (MCPClient_list_tools w) c) = Inl (Exc ''TimeoutError'' [])"
    by (rule run_async_timeout)
  then show "fst (list_tools w c) = Inr (PDict [(''error'', PStr [])], 500)"
    using list_tools_failure by fastforce
next
  fix body c1 tr
  assume "call_tool w c = (Inr (body, 400), c1, tr)"
  then show "\<exists>data n. request_json w = Inr data \<and> dict_get data ''name'' PNone = Inr n
      \<and> \<not> truthy n"
    by (rule call_tool_400)
next
  fix w2
  from call_tool_returns [of w2 "fst (snd (list_tools w c))"]
  show "\<exists>resp. fst (call_tool w2 (fst (snd (list_tools w c)))) = Inr resp"
    by auto
next
  fix w2
  from list_tools_returns [of w2 "fst (snd (call_tool w c))"]
  show "\<exists>resp. fst (list_tools w2 (fst (snd (call_tool w c)))) = Inr resp"
    by auto
qed

text \<open>
  Witness for C7: a protocol failure while listing, and a timeout while calling a tool,
  both on a connected client.
\<close>

theorem handlers_answer_failures_witness:
  "fst (run_async listing_fails (MCPClient_list_tools listing_fails) connected_client) =
      Inl (Exc ''McpError'' ''connection closed'')
   \<and> fst (list_tools listing_fails connected_client) =
      Inr (PDict [(''error'', PStr ''connection closed'')], 500)
   \<and> wait_res search_times_out = TimedOut
   \<and> fst (call_tool search_times_out connected_client) = Inr (PDict [(''error'', PStr [])], 500)"
proof -
  have f: "fst (run_async listing_fails (MCPClient_list_tools listing_fails) connected_client) =
      Inl (Exc ''McpError'' ''connection closed'')"
    by (simp add: run_async_def MCPClient_list_tools_def ensure_connection_def
        listing_fails_def quiet_world_def connected_client_def)
  note h = handlers_answer_failures [of listing_fails connected_client]
  from h f have l: "fst (list_tools listing_fails connected_client) =
      Inr (PDict [(''error'', PStr (exc_str (Exc ''McpError'' ''connection closed'')))], 500)"
    by blast
  have t: "wait_res search_times_out = TimedOut"
    by (simp add: search_times_out_def search_request_def quiet_world_def)
  have r: "request_json search_times_out = Inr (PDict [(''name'', PStr ''search'')])"
    by (simp add: search_times_out_def search_request_def quiet_world_def)
  have n: "dict_get (PDict [(''name'', PStr ''search'')]) ''name'' PNone = Inr (PStr ''search'')"
    and a: "dict_get (PDict [(''name'', PStr ''search'')]) ''arguments'' (PDict []) = Inr (PDict [])"
    by (simp_all add: dict_get_def)
  have tn: "truthy (PStr ''search'')" by simp
  have to: "fst (run_async search_times_out
               (MCPClient_call_tool search_times_out (PStr ''search'') (PDict [])) connected_client) =
            Inl (Exc ''TimeoutError'' [])"
    using t by (rule run_async_timeout)
  note g = handlers_answer_failures [of search_times_out connected_client]
  from g r n a tn to have k: "fst (call_tool search_times_out connected_client) =
      Inr (PDict [(''error'', PStr (exc_str (Exc ''TimeoutError'' [])))], 500)"
    by blast
  from f l t k show ?thesis by simp
qed

text \<open>
  C10. A request to /mcp/call_tool whose body is a JSON object with a non-empty
  \<open>name\<close> and no \<open>arguments\<close> key is not refused (its status is not 400): what the
  handler does to the client and the subprocess is what \<^verbatim>\<open>call_tool(name, {})\<close>
  of the session manager does; the only invocation it can send is that of \<open>name\<close> with
  the empty mapping, it does send it whenever a session exists or the connection can be
  made, and when that invocation succeeds within the wait the response is 200 with its
  content.
\<close>

theorem call_tool_default_arguments:
  assumes "request_json w = Inr (PDict kvs)" and "map_of kvs ''name'' = Some n" and "truthy n"
      and "map_of kvs ''arguments'' = None"
  shows "\<exists>resp c1 tr. call_tool w c = (Inr resp, c1, tr) \<and> snd resp \<noteq> 400
           \<and> (c1, tr) = snd (MCPClient_call_tool w n (PDict []) c)
           \<and> set (invocations tr) \<subseteq> {(n, PDict [])}
           \<and> (session c \<noteq> None \<or> connect_failure w = None \<longrightarrow>
                invocations tr = [(n, PDict [])]
                \<and> (\<forall>cs. wait_res w = Completed \<and> call_tool_res w n (PDict []) = Inr cs \<longrightarrow>
                      resp = (PDict [(''content'', PList (map content_json cs))], 200)))"
proof -
  obtain r c1 tr where m: "MCPClient_call_tool w n (PDict []) c = (r, c1, tr)"
    by (cases "MCPClient_call_tool w n (PDict []) c") auto
  have "\<exists>resp. call_tool w c = (Inr resp, c1, tr) \<and> snd resp \<noteq> 400"
    using assms m
    by (cases "wait_res w"; cases r)
      (simp_all add: call_tool_def call_tool_try_def dict_get_def run_async_def
        error_response_def)
  then obtain resp where
    h: "call_tool w c = (Inr resp, c1, tr)" "snd resp \<noteq> 400"
    by blast
  from m have i: "set (invocations tr) \<subseteq> {(n, PDict [])}"
    by (rule MCPClient_call_tool_invocations)
  have "invocations tr = [(n, PDict [])]
        \<and> (\<forall>cs. wait_res w = Completed \<and> call_tool_res w n (PDict []) = Inr cs \<longrightarrow>
              resp = (PDict [(''content'', PList (map content_json cs))], 200))"
    if k: "session c \<noteq> None \<or> connect_failure w = None"
  proof -
    from MCPClient_call_tool_reaches [OF k, of n "PDict []"] m
    have r: "r = call_tool_res w n (PDict [])" and v: "invocations tr = [(n, PDict [])]"
      by auto
    have "resp = (PDict [(''content'', PList (map content_json cs))], 200)"
      if "wait_res w = Completed \<and> call_tool_res w n (PDict []) = Inr cs" for cs
      using that assms m r h(1)
      by (auto simp add: call_tool_def call_tool_try_def dict_get_def run_async_def)
    with v show ?thesis by blast
  qed
  with h i m show ?thesis by auto
qed

text \<open>
  Witness for C10: \<^verbatim>\<open>{"name": "search"}\<close> on a new client, in a world where
  everything succeeds.
\<close>

theorem call_tool_default_arguments_witness:
  "request_json search_request = Inr (PDict [(''name'', PStr ''search'')])
   \<and> map_of [(''name'', PStr ''search'')] ''name'' = Some (PStr ''search'')
   \<and> truthy (PStr ''search'')
   \<and> map_of [(''name'', PStr ''search'')] ''arguments'' = None
   \<and> connect_failure search_request = None
   \<and> (\<exists>c1 tr. call_tool search_request fresh_client = (Inr (PDict [(''content'', PList [])], 200), c1, tr)
          \<and> invocations tr = [(PStr ''search'', PDict [])])"
proof -
  have r: "request_json search_request = Inr (PDict [(''name'', PStr ''search'')])"
    by (simp add: search_request_def quiet_world_def)
  have n: "map_of [(''name'', PStr ''search'')] ''name'' = Some (PStr ''search'')" by simp
  have t: "truthy (PStr ''search'')" by simp
  have a: "map_of [(''name'', PStr ''search'')] ''arguments'' = None" by simp
  have f: "connect_failure search_request = None"
    by (simp add: connect_failure_def search_request_def quiet_world_def)
  have w: "wait_res search_request = Completed"
    and cr: "call_tool_res search_request (PStr ''search'') (PDict []) = Inr []"
    by (simp_all add: search_request_def quiet_world_def)
  from call_tool_default_arguments [OF r n t a, of fresh_client] obtain resp c1 tr where
    h: "call_tool search_request fresh_client = (Inr resp, c1, tr)"
       "session fresh_client \<noteq> None \<or> connect_failure search_request = None \<longrightarrow>
          invocations tr = [(PStr ''search'', PDict [])]
          \<and> (\<forall>cs. wait_res search_request = Completed
                  \<and> call_tool_res search_request (PStr ''search'') (PDict []) = Inr cs \<longrightarrow>
                resp = (PDict [(''content'', PList (map content_json cs))], 200))"
    by (elim exE conjE) (rule that)
  from h(2) f w cr have "invocations tr = [(PStr ''search'', PDict [])]"
    and "resp = (PDict [(''content'', PList [])], 200)"
    by auto
  with h(1) r n t a f show ?thesis by auto
qed

section \<open>The configuration loader at a partial file\<close>

text \<open>
  C8, evaluated at a config.yml whose server section sets only the command, with none of
  the three environment variables set: the section of the file stands in place of the
  whole default section, so the result has no name, args, env or port, and the module's
  next statement, \<^verbatim>\<open>PORT = CONFIG['server']['port']\<close>, raises
  \<^verbatim>\<open>KeyError\<close>. Without the file the same call gives the defaults.
\<close>

theorem load_config_partial_file:
  "load_config json_loads py_int partial_file Map.empty =
      Inr [(''server'', PDict [(''command'', PStr ''node'')])]
   \<and> server_item [(''server'', PDict [(''command'', PStr ''node'')])] ''port'' =
      Inl (Exc ''KeyError'' (quoted ''port''))
   \<and> module_init json_loads py_int partial_file Map.empty = Inl (Exc ''KeyError'' (quoted ''port''))
   \<and> load_config json_loads py_int NoFile Map.empty = Inr default_config
   \<and> server_item default_config ''port'' = Inr (PInt 3050)"
  by (simp add: module_init_def load_config_def default_config_def dict_update_def
        getenv_set_def server_item_def getitem_def partial_file_def)


end
